theory Spec2Isabelle
  imports Main "HOL-Library.Word"
begin

section \<open>Values, exceptions and observable events\<close>

text \<open>
  The model follows \<^verbatim>\<open>src/live-backend/main.py\<close>. Audio frames are Python \<^verbatim>\<open>bytes\<close>.
\<close>

type_synonym bytes = "8 word list"

text \<open>
  The exceptions the relay distinguishes. Only subclasses of \<^verbatim>\<open>Exception\<close> are modelled:
  these are what the handlers \<^verbatim>\<open>except Exception\<close> of the source catch.
  \<open>HTTPException status detail\<close> is FastAPI's, \<open>WebSocketDisconnect\<close> is Starlette's, and
  \<open>OtherException msg\<close> is any other exception, carried by the text \<^verbatim>\<open>str(e)\<close> gives.
\<close>

datatype exc = HTTPException nat string | WebSocketDisconnect | OtherException string

definition digit_char :: "nat \<Rightarrow> char" where
  "digit_char d = char_of (48 + d)"

text \<open>Decimal rendering of a non-negative integer, as \<^verbatim>\<open>str(n)\<close> and \<^verbatim>\<open>f"{n}"\<close> give it.\<close>

fun dec :: "nat \<Rightarrow> string" where
  "dec n = (if n < 10 then [digit_char n] else dec (n div 10) @ [digit_char (n mod 10)])"

declare dec.simps [simp del]

text \<open>\<^verbatim>\<open>str(e)\<close>; an HTTPException prints as \<^verbatim>\<open>"{status_code}: {detail}"\<close>.\<close>

fun str_exc :: "exc \<Rightarrow> string" where
  "str_exc (HTTPException status detail) = dec status @ '': '' @ detail"
| "str_exc WebSocketDisconnect = []"
| "str_exc (OtherException msg) = msg"

datatype level = DEBUG | INFO | WARNING | ERROR

text \<open>
  Values that travel in JSON messages. \<open>POther r\<close> stands for a float, list or object nested
  inside a message, carried by the text \<^verbatim>\<open>str\<close> gives for it: the relay only ever formats
  such a value into a reply.
\<close>

datatype pyval = PNone | PBool bool | PInt int | PStr string | POther string

type_synonym message = "(string \<times> pyval) list"

text \<open>
  What an operation does beyond changing the state it returns: calls of the logger, calls of
  the engine's input callback, and calls of the engine's session entry points (tagged with
  the session identifier the engine handle was created for).
\<close>

datatype event =
    Log level string
  | InputCallback bytes
  | StartSession string
  | EndSession string

section \<open>WebSocketAudioInterface\<close>

text \<open>
  The input callback is the engine's: it takes a frame and either returns (\<open>None\<close>) or
  raises (\<open>Some e\<close>). \<open>ai_websocket\<close> is the connection the interface was built for
  (its \<^verbatim>\<open>id\<close>), \<open>loop\<close> the event loop captured by the constructor.
\<close>

record WebSocketAudioInterface =
  ai_websocket :: nat
  is_recording :: bool
  audio_queue :: "bytes list"
  input_callback :: "(bytes \<Rightarrow> exc option) option"
  loop :: "nat option"

text \<open>
  The constructor; \<open>cur_loop\<close> is what \<^verbatim>\<open>asyncio.get_event_loop()\<close> gives where the
  constructor runs, \<open>None\<close> when it raises RuntimeError.
\<close>

definition WebSocketAudioInterface_init :: "nat \<Rightarrow> nat option \<Rightarrow> WebSocketAudioInterface" where
  "WebSocketAudioInterface_init ws cur_loop =
     \<lparr>ai_websocket = ws, is_recording = False, audio_queue = [],
      input_callback = None, loop = cur_loop\<rparr>"

definition start :: "(bytes \<Rightarrow> exc option) \<Rightarrow> WebSocketAudioInterface
    \<Rightarrow> WebSocketAudioInterface \<times> event list" where
  "start cb self =
     (self\<lparr>input_callback := Some cb, is_recording := True\<rparr>,
      [Log INFO ''Started WebSocket audio interface''])"

definition stop :: "WebSocketAudioInterface \<Rightarrow> WebSocketAudioInterface \<times> event list" where
  "stop self = (self\<lparr>is_recording := False\<rparr>, [Log INFO ''Stopped WebSocket audio interface''])"

text \<open>
  \<^verbatim>\<open>queue_audio\<close>: the put on the unbounded queue, then the guarded call of the callback
  inside \<^verbatim>\<open>try ... except Exception\<close>. The first component is what the call raises to its
  caller (\<open>Inl\<close>) or that it returns (\<open>Inr ()\<close>).
\<close>

definition queue_audio :: "bytes \<Rightarrow> WebSocketAudioInterface
    \<Rightarrow> (exc + unit) \<times> WebSocketAudioInterface \<times> event list" where
  "queue_audio audio_data self =
     (let self1 = self\<lparr>audio_queue := audio_queue self @ [audio_data]\<rparr> in
      case input_callback self1 of
        None \<Rightarrow> (Inr (), self1, [])
      | Some cb \<Rightarrow>
          if is_recording self1 then
            (case cb audio_data of
               None \<Rightarrow> (Inr (), self1, [InputCallback audio_data])
             | Some e \<Rightarrow>
                 (Inr (), self1,
                  [InputCallback audio_data,
                   Log ERROR (''Error in input callback: '' @ str_exc e)]))
          else (Inr (), self1, []))"

text \<open>The frames handed to the input callback, in order.\<close>

fun callback_frames :: "event list \<Rightarrow> bytes list" where
  "callback_frames [] = []"
| "callback_frames (InputCallback f # es) = f # callback_frames es"
| "callback_frames (_ # es) = callback_frames es"

fun error_logs :: "event list \<Rightarrow> string list" where
  "error_logs [] = []"
| "error_logs (Log ERROR s # es) = s # error_logs es"
| "error_logs (_ # es) = error_logs es"

section \<open>Outbound audio\<close>

text \<open>\<^verbatim>\<open>base64.b64encode(...).decode("ascii")\<close>: three bytes give four characters, padded with \<open>=\<close>.\<close>

definition b64_alphabet :: string where
  "b64_alphabet = ''ABCDEFGHIJKLMNOPQRSTUVWXYZabcdefghijklmnopqrstuvwxyz0123456789+/''"

definition b64_char :: "nat \<Rightarrow> char" where
  "b64_char n = b64_alphabet ! (n mod 64)"

fun b64encode :: "bytes \<Rightarrow> string" where
  "b64encode [] = []"
| "b64encode [a] =
     (let n = unat a * 65536
      in [b64_char (n div 262144), b64_char (n div 4096), CHR ''='', CHR ''=''])"
| "b64encode [a, b] =
     (let n = unat a * 65536 + unat b * 256
      in [b64_char (n div 262144), b64_char (n div 4096), b64_char (n div 64), CHR ''=''])"
| "b64encode (a # b # c # rest) =
     (let n = unat a * 65536 + unat b * 256 + unat c
      in [b64_char (n div 262144), b64_char (n div 4096), b64_char (n div 64), b64_char n]
         @ b64encode rest)"

text \<open>
  The reading back of a base64 text, as \<^verbatim>\<open>base64.b64decode\<close> does it on what \<open>b64encode\<close>
  writes: the position of each character in the alphabet, four characters to three bytes,
  the padding telling how many bytes the last group holds.
\<close>

fun index_of :: "'a \<Rightarrow> 'a list \<Rightarrow> nat" where
  "index_of x [] = 0"
| "index_of x (y # ys) = (if x = y then 0 else Suc (index_of x ys))"

definition b64_index :: "char \<Rightarrow> nat" where
  "b64_index c = index_of c b64_alphabet"

fun b64decode :: "string \<Rightarrow> bytes option" where
  "b64decode [] = Some []"
| "b64decode (c1 # c2 # c3 # c4 # rest) =
     (if c3 = CHR ''='' \<and> c4 = CHR ''='' \<and> rest = [] then
        (let n = b64_index c1 * 262144 + b64_index c2 * 4096
         in Some [of_nat (n div 65536)])
      else if c4 = CHR ''='' \<and> rest = [] then
        (let n = b64_index c1 * 262144 + b64_index c2 * 4096 + b64_index c3 * 64
         in Some [of_nat (n div 65536), of_nat (n div 256)])
      else
        (let n = b64_index c1 * 262144 + b64_index c2 * 4096 + b64_index c3 * 64
                 + b64_index c4
         in map_option (\<lambda>bs. of_nat (n div 65536) # of_nat (n div 256) # of_nat n # bs)
              (b64decode rest)))"
| "b64decode _ = None"

record Config =
  ELEVENLABS_API_KEY :: "string option"
  AGENT_ID :: "string option"
  OUTPUT_SAMPLE_RATE_HZ :: int

text \<open>Truth value of an environment variable: \<^verbatim>\<open>None\<close> and the empty string are false.\<close>

fun truthy :: "string option \<Rightarrow> bool" where
  "truthy None = False"
| "truthy (Some s) = (s \<noteq> [])"

text \<open>
  \<^verbatim>\<open>output\<close> is called by the engine on a thread of its own. What that thread meets is the
  environment of the call: \<open>thread_loop\<close> is what \<^verbatim>\<open>asyncio.get_event_loop()\<close> gives there,
  \<open>schedule_raises\<close> whether \<^verbatim>\<open>run_coroutine_threadsafe\<close> refuses the coroutine (a closed
  loop), and \<open>completion\<close> when and how the scheduled send ends: after so many milliseconds,
  returning or raising, or never.
\<close>

datatype completion = Completes nat "exc option" | Never

record output_env =
  thread_loop :: "exc + nat"
  schedule_raises :: "exc option"
  completion :: completion

text \<open>
  \<^verbatim>\<open>fut.result(timeout=...)\<close>: the result of the future when it completes within the
  timeout, TimeoutError at the timeout otherwise; with the time the caller was blocked, in
  milliseconds.
\<close>

fun fut_result :: "nat \<Rightarrow> completion \<Rightarrow> exc option \<times> nat" where
  "fut_result timeout (Completes d r) =
     (if d \<le> timeout then (r, d) else (Some (OtherException []), timeout))"
| "fut_result timeout Never = (Some (OtherException []), timeout)"

text \<open>A send handed to an event loop: the loop, the connection, the message.\<close>

type_synonym scheduled = "nat \<times> nat \<times> message"

record output_result =
  raised :: "exc option"
  interface :: WebSocketAudioInterface
  scheduled_sends :: "scheduled list"
  blocked_ms :: nat
  output_events :: "event list"

definition audio_payload :: "Config \<Rightarrow> bytes \<Rightarrow> message" where
  "audio_payload config audio_data =
     [(''type'', PStr ''audio''),
      (''audio_data'', PStr (b64encode audio_data)),
      (''encoding'', PStr ''pcm16''),
      (''sample_rate_hz'', PInt (OUTPUT_SAMPLE_RATE_HZ config))]"

definition output_failed :: "WebSocketAudioInterface \<Rightarrow> exc \<Rightarrow> output_result" where
  "output_failed self e =
     \<lparr>raised = None, interface = self, scheduled_sends = [], blocked_ms = 0,
      output_events = [Log ERROR (''Error forwarding audio to WebSocket: '' @ str_exc e)]\<rparr>"

text \<open>
  \<^verbatim>\<open>output\<close> (named \<open>output_audio\<close> here). The outer \<^verbatim>\<open>try\<close> turns every exception
  into an error log; the inner one drops whatever \<^verbatim>\<open>fut.result(timeout=2.0)\<close> raises, a
  TimeoutError included. The 2.0 seconds of the source are the 2000 milliseconds here.
\<close>

definition output_audio :: "Config \<Rightarrow> output_env \<Rightarrow> bytes \<Rightarrow> WebSocketAudioInterface
    \<Rightarrow> output_result" where
  "output_audio config env audio_data self =
     (case (case loop self of
              Some l \<Rightarrow> Inr (l, self)
            | None \<Rightarrow>
                (case thread_loop env of
                   Inl e \<Rightarrow> Inl e
                 | Inr l \<Rightarrow> Inr (l, self\<lparr>loop := Some l\<rparr>))) of
        Inl e \<Rightarrow> output_failed self e
      | Inr (l, self1) \<Rightarrow>
          (case schedule_raises env of
             Some e \<Rightarrow> output_failed self1 e
           | None \<Rightarrow>
               (case fut_result 2000 (completion env) of
                  (_, waited) \<Rightarrow>
                    \<lparr>raised = None, interface = self1,
                     scheduled_sends =
                       [(l, ai_websocket self1, audio_payload config audio_data)],
                     blocked_ms = waited, output_events = []\<rparr>)))"

section \<open>ConversationManager\<close>

record datetime =
  year :: nat
  month :: nat
  day :: nat
  hour :: nat
  minute :: nat
  second :: nat
  microsecond :: nat

text \<open>
  The clock values \<^verbatim>\<open>datetime.now()\<close> returns: the ranges of Python's datetime, with a
  year of four digits (\<^verbatim>\<open>%Y\<close> prints a year below 1000 differently from one C library to
  the next).
\<close>

definition valid_datetime :: "datetime \<Rightarrow> bool" where
  "valid_datetime t =
     (1000 \<le> year t \<and> year t \<le> 9999 \<and> 1 \<le> month t \<and> month t \<le> 12 \<and>
      1 \<le> day t \<and> day t \<le> 31 \<and> hour t \<le> 23 \<and> minute t \<le> 59 \<and> second t \<le> 59 \<and>
      microsecond t \<le> 999999)"

text \<open>\<^verbatim>\<open>%02d\<close> and \<^verbatim>\<open>%04d\<close>: zeros in front, up to the width; a longer number is kept whole.\<close>

definition zero_pad :: "nat \<Rightarrow> nat \<Rightarrow> string" where
  "zero_pad w n = replicate (w - length (dec n)) CHR ''0'' @ dec n"

text \<open>\<^verbatim>\<open>strftime('%Y%m%d_%H%M%S')\<close>.\<close>

definition strftime :: "datetime \<Rightarrow> string" where
  "strftime t =
     zero_pad 4 (year t) @ zero_pad 2 (month t) @ zero_pad 2 (day t) @ ''_'' @
     zero_pad 2 (hour t) @ zero_pad 2 (minute t) @ zero_pad 2 (second t)"

text \<open>
  The number a string of decimal digits stands for; it reads back what \<open>dec\<close> and
  \<open>zero_pad\<close> print.
\<close>

definition digits_value :: "string \<Rightarrow> nat" where
  "digits_value s = foldl (\<lambda>a c. 10 * a + (of_char c - 48)) 0 s"

text \<open>Two clock readings in the same second.\<close>

definition same_second :: "datetime \<Rightarrow> datetime \<Rightarrow> bool" where
  "same_second t1 t2 =
     (year t1 = year t2 \<and> month t1 = month t2 \<and> day t1 = day t2 \<and>
      hour t1 = hour t2 \<and> minute t1 = minute t2 \<and> second t1 = second t2)"

text \<open>
  \<^verbatim>\<open>f"session_{datetime.now().strftime('%Y%m%d_%H%M%S')}_{id(websocket)}"\<close>; \<open>ws\<close> is
  \<^verbatim>\<open>id(websocket)\<close>.
\<close>

definition make_session_id :: "datetime \<Rightarrow> nat \<Rightarrow> string" where
  "make_session_id now ws = ''session_'' @ strftime now @ ''_'' @ dec ws"

text \<open>
  The engine's \<^verbatim>\<open>Conversation\<close> object, as far as the relay builds it: the client (its API
  key), the agent, the auth flag, and the session identifier its three callbacks log under.
  Its audio interface is the one stored beside it in the registry entry.
\<close>

record Conversation =
  conv_client :: string
  conv_agent_id :: string
  requires_auth :: bool
  conv_session :: string

record conv_data =
  conversation :: Conversation
  cd_websocket :: nat
  audio_interface :: WebSocketAudioInterface
  user_id :: "string option"
  created_at :: datetime
  is_active :: bool

record ConversationManager =
  conversations :: "string \<rightharpoonup> conv_data"
  elevenlabs_client :: "string option"

text \<open>
  The engine is external. Each of its two entry points takes the handle and the audio
  interface the handle shares with the registry entry, returns or raises, and may have
  used the interface (the SDK calls \<^verbatim>\<open>start\<close> and \<^verbatim>\<open>stop\<close> on it).
\<close>

record engine =
  start_session :: "Conversation \<Rightarrow> WebSocketAudioInterface \<Rightarrow> exc option \<times> WebSocketAudioInterface"
  end_session :: "Conversation \<Rightarrow> WebSocketAudioInterface \<Rightarrow> exc option \<times> WebSocketAudioInterface"

text \<open>The constructor of the manager. (The warning sign in front of the logged text is left out.)\<close>

definition ConversationManager_init :: "Config \<Rightarrow> ConversationManager \<times> event list" where
  "ConversationManager_init config =
     (case ELEVENLABS_API_KEY config of
        Some k \<Rightarrow>
          if k \<noteq> [] then (\<lparr>conversations = Map.empty, elevenlabs_client = Some k\<rparr>, [])
          else (\<lparr>conversations = Map.empty, elevenlabs_client = None\<rparr>,
                [Log WARNING ''ElevenLabs API key not configured!''])
      | None \<Rightarrow>
          (\<lparr>conversations = Map.empty, elevenlabs_client = None\<rparr>,
           [Log WARNING ''ElevenLabs API key not configured!'']))"

text \<open>
  \<^verbatim>\<open>create_conversation\<close>; \<open>ws\<close> is \<^verbatim>\<open>id(websocket)\<close>, \<open>cur_loop\<close> the event loop the
  call runs on, \<open>now1\<close> and \<open>now2\<close> the two readings of the clock.
\<close>

definition create_conversation :: "Config \<Rightarrow> nat \<Rightarrow> nat option \<Rightarrow> string option
    \<Rightarrow> datetime \<Rightarrow> datetime \<Rightarrow> ConversationManager
    \<Rightarrow> (exc + string) \<times> ConversationManager \<times> event list" where
  "create_conversation config ws cur_loop uid now1 now2 self =
     (let session_id = make_session_id now1 ws in
      case elevenlabs_client self of
        None \<Rightarrow> (Inl (HTTPException 500 ''ElevenLabs not properly configured''), self, [])
      | Some client \<Rightarrow>
          (case AGENT_ID config of
             None \<Rightarrow> (Inl (HTTPException 500 ''ElevenLabs not properly configured''), self, [])
           | Some agent \<Rightarrow>
               if agent = [] then
                 (Inl (HTTPException 500 ''ElevenLabs not properly configured''), self, [])
               else
                 (let audio = WebSocketAudioInterface_init ws cur_loop;
                      conv = \<lparr>conv_client = client, conv_agent_id = agent,
                              requires_auth = truthy (ELEVENLABS_API_KEY config),
                              conv_session = session_id\<rparr>;
                      entry = \<lparr>conversation = conv, cd_websocket = ws,
                               audio_interface = audio, user_id = uid,
                               created_at = now2, is_active = False\<rparr>
                  in (Inr session_id,
                      self\<lparr>conversations := (conversations self)(session_id \<mapsto> entry)\<rparr>,
                      [Log INFO (''Created conversation session: '' @ session_id)]))))"

definition start_conversation :: "engine \<Rightarrow> string \<Rightarrow> pyval \<Rightarrow> ConversationManager
    \<Rightarrow> (exc + unit) \<times> ConversationManager \<times> event list" where
  "start_conversation eng session_id uid self =
     (case conversations self session_id of
        None \<Rightarrow> (Inl (HTTPException 404 ''Session not found''), self, [])
      | Some cd \<Rightarrow>
          (case start_session eng (conversation cd) (audio_interface cd) of
             (Some e, audio) \<Rightarrow>
               (Inl (HTTPException 500 (''Failed to start conversation: '' @ str_exc e)),
                self\<lparr>conversations :=
                       (conversations self)(session_id \<mapsto> cd\<lparr>audio_interface := audio\<rparr>)\<rparr>,
                [StartSession (conv_session (conversation cd)),
                 Log ERROR (''Failed to start session: '' @ str_exc e),
                 Log ERROR (''Error starting conversation: '' @ str_exc e)])
           | (None, audio) \<Rightarrow>
               (Inr (),
                self\<lparr>conversations :=
                       (conversations self)
                         (session_id \<mapsto> cd\<lparr>audio_interface := audio, is_active := True\<rparr>)\<rparr>,
                [StartSession (conv_session (conversation cd)),
                 Log INFO (''Started ElevenLabs conversation for session: '' @ session_id)])))"

definition end_conversation :: "engine \<Rightarrow> string \<Rightarrow> ConversationManager
    \<Rightarrow> (exc + unit) \<times> ConversationManager \<times> event list" where
  "end_conversation eng session_id self =
     (case conversations self session_id of
        None \<Rightarrow> (Inr (), self, [])
      | Some cd \<Rightarrow>
          (case end_session eng (conversation cd) (audio_interface cd) of
             (Some e, audio) \<Rightarrow>
               (Inr (),
                self\<lparr>conversations :=
                       (conversations self)(session_id \<mapsto> cd\<lparr>audio_interface := audio\<rparr>)\<rparr>,
                [EndSession (conv_session (conversation cd)),
                 Log ERROR (''Error ending conversation: '' @ str_exc e)])
           | (None, audio) \<Rightarrow>
               (Inr (),
                self\<lparr>conversations := (conversations self)(session_id := None)\<rparr>,
                [EndSession (conv_session (conversation cd)),
                 Log INFO (''Ended conversation session: '' @ session_id)])))"

text \<open>\<^verbatim>\<open>list_conversations\<close> reports the identifiers in the registry.\<close>

definition listed :: "ConversationManager \<Rightarrow> string set" where
  "listed self = dom (conversations self)"

section \<open>The WebSocket endpoint\<close>

text \<open>
  A connection: its \<^verbatim>\<open>id\<close>, the messages sent on it so far, and what a send raises when
  the transport no longer takes one (\<open>None\<close> while it does).
\<close>

record WebSocket =
  ws_id :: nat
  send_raises :: "exc option"
  sent :: "message list"

text \<open>The server: the global manager, the connection of this handler, and the events so far.\<close>

record server =
  manager :: ConversationManager
  socket :: WebSocket
  trace :: "event list"

definition emit :: "event list \<Rightarrow> server \<Rightarrow> server" where
  "emit evs s = s\<lparr>trace := trace s @ evs\<rparr>"

definition send_json :: "message \<Rightarrow> server \<Rightarrow> (exc + unit) \<times> server" where
  "send_json msg s =
     (case send_raises (socket s) of
        Some e \<Rightarrow> (Inl e, s)
      | None \<Rightarrow> (Inr (), s\<lparr>socket := (socket s)\<lparr>sent := sent (socket s) @ [msg]\<rparr>\<rparr>))"

text \<open>
  What \<^verbatim>\<open>json.loads\<close> makes of the text of a frame: a decode error (with its text), a JSON
  value that is not an object (with the text of the AttributeError that \<^verbatim>\<open>message.get\<close>
  raises on it), or an object.
\<close>

datatype decoded = DecodeError string | NonObject string | Object "string \<rightharpoonup> pyval"

text \<open>The dictionary \<^verbatim>\<open>websocket.receive()\<close> returns: its \<^verbatim>\<open>"text"\<close> and \<^verbatim>\<open>"bytes"\<close> entries.\<close>

record data =
  d_text :: "decoded option"
  d_bytes :: "bytes option"

datatype received = Returns data | Raises exc

text \<open>\<^verbatim>\<open>message.get(key)\<close> and \<^verbatim>\<open>message.get(key, default)\<close>.\<close>

definition get_default :: "(string \<rightharpoonup> pyval) \<Rightarrow> string \<Rightarrow> pyval \<Rightarrow> pyval" where
  "get_default message k d = (case message k of None \<Rightarrow> d | Some v \<Rightarrow> v)"

text \<open>A value formatted into an f-string.\<close>

fun py_str :: "pyval \<Rightarrow> string" where
  "py_str PNone = ''None''"
| "py_str (PBool b) = (if b then ''True'' else ''False'')"
| "py_str (PInt i) = (if i < 0 then ''-'' @ dec (nat (- i)) else dec (nat i))"
| "py_str (PStr s) = s"
| "py_str (POther r) = r"

definition handle_websocket_message :: "engine \<Rightarrow> string \<Rightarrow> (string \<rightharpoonup> pyval) \<Rightarrow> server
    \<Rightarrow> (exc + unit) \<times> server" where
  "handle_websocket_message eng session_id message s =
     (let message_type = get_default message ''type'' PNone in
      if message_type = PStr ''start'' then
        (case start_conversation eng session_id (get_default message ''user_id'' PNone)
                (manager s) of
           (r, m, evs) \<Rightarrow>
             (let s1 = emit evs (s\<lparr>manager := m\<rparr>) in
              case (case r of
                      Inl e \<Rightarrow> (Inl e, s1)
                    | Inr _ \<Rightarrow>
                        send_json [(''type'', PStr ''conversation_started''),
                                   (''message'', PStr ''Conversation started! You can now speak.'')]
                          s1) of
                (Inl e, s2) \<Rightarrow>
                  send_json [(''type'', PStr ''error''),
                             (''message'', PStr (''Failed to start conversation: '' @ str_exc e))]
                    s2
              | (Inr _, s2) \<Rightarrow> (Inr (), s2)))
      else if message_type = PStr ''stop'' then
        (case end_conversation eng session_id (manager s) of
           (r, m, evs) \<Rightarrow>
             (let s1 = emit evs (s\<lparr>manager := m\<rparr>) in
              case r of
                Inl e \<Rightarrow> (Inl e, s1)
              | Inr _ \<Rightarrow>
                  send_json [(''type'', PStr ''conversation_stopped''),
                             (''message'', PStr ''Conversation stopped.'')]
                    s1))
      else if message_type = PStr ''text'' then
        (let text = get_default message ''text'' (PStr []);
             s1 = emit [Log INFO (''Received text input: '' @ py_str text)] s
         in send_json [(''type'', PStr ''text_response''),
                       (''text'', PStr (''Echo: '' @ py_str text))]
              s1)
      else
        send_json [(''type'', PStr ''error''),
                   (''message'', PStr (''Unknown message type: '' @ py_str message_type))]
          s)"

text \<open>
  One turn of the \<^verbatim>\<open>while True\<close> loop of \<^verbatim>\<open>websocket_conversation\<close>: the receive and the
  dispatch of what it returned. \<open>Inl e\<close>: the turn raised \<open>e\<close>, which leaves the loop;
  \<open>Inr ()\<close>: the loop goes on to the next receive.
\<close>

definition loop_turn :: "engine \<Rightarrow> string \<Rightarrow> received \<Rightarrow> server \<Rightarrow> (exc + unit) \<times> server" where
  "loop_turn eng session_id rcv s =
     (case rcv of
        Raises e \<Rightarrow> (Inl e, s)
      | Returns d \<Rightarrow>
          (case d_text d of
             Some (DecodeError msg) \<Rightarrow> (Inl (OtherException msg), s)
           | Some (NonObject msg) \<Rightarrow> (Inl (OtherException msg), s)
           | Some (Object message) \<Rightarrow> handle_websocket_message eng session_id message s
           | None \<Rightarrow>
               (case d_bytes d of
                  None \<Rightarrow> (Inr (), s)
                | Some audio_data \<Rightarrow>
                    (case conversations (manager s) session_id of
                       None \<Rightarrow> (Inr (), s)
                     | Some cd \<Rightarrow>
                         (case queue_audio audio_data (audio_interface cd) of
                            (r, audio, evs) \<Rightarrow>
                              (let m = (manager s)\<lparr>conversations :=
                                         (conversations (manager s))
                                           (session_id \<mapsto> cd\<lparr>audio_interface := audio\<rparr>)\<rparr>;
                                   s1 = emit evs (s\<lparr>manager := m\<rparr>)
                               in case r of
                                    Inl e \<Rightarrow> (Inl e, s1)
                                  | Inr _ \<Rightarrow>
                                      (Inr (),
                                       emit [Log DEBUG (''Received '' @ dec (length audio_data)
                                                        @ '' bytes of audio from frontend'')] s1)))))))"

text \<open>
  The loop on the receives that have happened so far: \<open>Some e\<close> when a turn raised \<open>e\<close>,
  \<open>None\<close> when the loop is waiting in the next receive.
\<close>

fun receive_loop :: "engine \<Rightarrow> string \<Rightarrow> received list \<Rightarrow> server \<Rightarrow> exc option \<times> server" where
  "receive_loop eng session_id [] s = (None, s)"
| "receive_loop eng session_id (rcv # rcvs) s =
     (case loop_turn eng session_id rcv s of
        (Inl e, s1) \<Rightarrow> (Some e, s1)
      | (Inr _, s1) \<Rightarrow> receive_loop eng session_id rcvs s1)"

datatype status = Receiving | Returned | Propagated exc

text \<open>The \<^verbatim>\<open>finally\<close> clause.\<close>

definition cleanup :: "engine \<Rightarrow> string option \<Rightarrow> server \<Rightarrow> (exc + unit) \<times> server" where
  "cleanup eng session_id s =
     (case session_id of
        None \<Rightarrow> (Inr (), s)
      | Some sid \<Rightarrow>
          (case end_conversation eng sid (manager s) of
             (r, m, evs) \<Rightarrow> (r, emit evs (s\<lparr>manager := m\<rparr>))))"

text \<open>
  The two \<^verbatim>\<open>except\<close> clauses, each followed by the \<^verbatim>\<open>finally\<close> clause. The error reply
  of the second is itself a send: when it raises, the clean-up still runs and the exception
  leaves the handler.
\<close>

definition on_exception :: "engine \<Rightarrow> exc \<Rightarrow> string option \<Rightarrow> server \<Rightarrow> status \<times> server" where
  "on_exception eng e session_id s =
     (if e = WebSocketDisconnect then
        (case cleanup eng session_id (emit [Log INFO ''WebSocket disconnected''] s) of
           (Inl e3, s2) \<Rightarrow> (Propagated e3, s2)
         | (Inr _, s2) \<Rightarrow> (Returned, s2))
      else
        (case send_json [(''type'', PStr ''error''),
                         (''message'', PStr (''Server error: '' @ str_exc e))]
                (emit [Log ERROR (''WebSocket error: '' @ str_exc e)] s) of
           (Inl e2, s1) \<Rightarrow>
             (case cleanup eng session_id s1 of
                (Inl e3, s2) \<Rightarrow> (Propagated e3, s2)
              | (Inr _, s2) \<Rightarrow> (Propagated e2, s2))
         | (Inr _, s1) \<Rightarrow>
             (case cleanup eng session_id s1 of
                (Inl e3, s2) \<Rightarrow> (Propagated e3, s2)
              | (Inr _, s2) \<Rightarrow> (Returned, s2))))"

text \<open>
  \<^verbatim>\<open>websocket_conversation\<close> on an accepted connection, run on the receives that have
  happened so far.
\<close>

definition websocket_conversation :: "engine \<Rightarrow> Config \<Rightarrow> nat option \<Rightarrow> datetime \<Rightarrow> datetime
    \<Rightarrow> received list \<Rightarrow> server \<Rightarrow> status \<times> server" where
  "websocket_conversation eng config cur_loop now1 now2 rcvs s =
     (let s0 = emit [Log INFO ''New WebSocket connection established''] s in
      case create_conversation config (ws_id (socket s0)) cur_loop None now1 now2 (manager s0) of
        (Inl e, m, evs) \<Rightarrow> on_exception eng e None (emit evs (s0\<lparr>manager := m\<rparr>))
      | (Inr session_id, m, evs) \<Rightarrow>
          (case send_json [(''type'', PStr ''session_created''),
                           (''session_id'', PStr session_id),
                           (''message'',
                            PStr ''Conversation session created. Send 'start' to begin.'')]
                  (emit evs (s0\<lparr>manager := m\<rparr>)) of
             (Inl e, s1) \<Rightarrow> on_exception eng e (Some session_id) s1
           | (Inr _, s1) \<Rightarrow>
               (case receive_loop eng session_id rcvs s1 of
                  (None, s2) \<Rightarrow> (Receiving, s2)
                | (Some e, s2) \<Rightarrow> on_exception eng e (Some session_id) s2)))"

section \<open>Example environments\<close>

text \<open>
  An engine that accepts every call, using the audio interface as the SDK documents
  (\<^verbatim>\<open>start\<close> with its input callback when a session starts, \<^verbatim>\<open>stop\<close> when it ends), and
  one whose \<^verbatim>\<open>end_session\<close> raises.
\<close>

definition sdk_callback :: "bytes \<Rightarrow> exc option" where
  "sdk_callback frame = None"

definition failing_callback :: "bytes \<Rightarrow> exc option" where
  "failing_callback frame = Some (OtherException ''engine closed'')"

definition engine_ok :: engine where
  "engine_ok =
     \<lparr>start_session = (\<lambda>c a. (None, fst (start sdk_callback a))),
      end_session = (\<lambda>c a. (None, fst (stop a)))\<rparr>"

definition engine_end_fails :: engine where
  "engine_end_fails =
     \<lparr>start_session = (\<lambda>c a. (None, fst (start sdk_callback a))),
      end_session = (\<lambda>c a. (Some (OtherException ''end_session failed''), a))\<rparr>"

definition config_ok :: Config where
  "config_ok =
     \<lparr>ELEVENLABS_API_KEY = Some ''key'', AGENT_ID = Some ''agent'',
      OUTPUT_SAMPLE_RATE_HZ = 24000\<rparr>"

definition config_no_agent :: Config where
  "config_no_agent =
     \<lparr>ELEVENLABS_API_KEY = Some ''key'', AGENT_ID = None, OUTPUT_SAMPLE_RATE_HZ = 24000\<rparr>"

definition noon :: datetime where
  "noon = \<lparr>year = 2025, month = 1, day = 2, hour = 12, minute = 0, second = 0,
           microsecond = 100000\<rparr>"

definition open_socket :: "nat \<Rightarrow> WebSocket" where
  "open_socket i = \<lparr>ws_id = i, send_raises = None, sent = []\<rparr>"

definition later_noon :: datetime where
  "later_noon = noon\<lparr>microsecond := 900000\<rparr>"

definition example_sid :: string where
  "example_sid = make_session_id noon 7"

definition manager0 :: ConversationManager where
  "manager0 = fst (ConversationManager_init config_ok)"

text \<open>The registry after one connection has created its session, and after it has started it.\<close>

definition created_manager :: ConversationManager where
  "created_manager =
     fst (snd (create_conversation config_ok 7 (Some 1) None noon noon manager0))"

definition active_manager :: ConversationManager where
  "active_manager = fst (snd (start_conversation engine_ok example_sid PNone created_manager))"

definition server0 :: server where
  "server0 = \<lparr>manager = manager0, socket = open_socket 7, trace = []\<rparr>"

text \<open>A text frame that is not JSON, and the control message \<^verbatim>\<open>{"type": "text", "text": "hi"}\<close>.\<close>

definition bad_frame :: received where
  "bad_frame =
     Returns \<lparr>d_text = Some (DecodeError ''Expecting value: line 1 column 1 (char 0)''),
              d_bytes = None\<rparr>"

definition text_frame :: received where
  "text_frame =
     Returns \<lparr>d_text = Some (Object [''type'' \<mapsto> PStr ''text'', ''text'' \<mapsto> PStr ''hi'']),
              d_bytes = None\<rparr>"

text \<open>A recording interface whose callback raises, and an environment of \<^verbatim>\<open>output\<close>
  in which the scheduled send never completes.\<close>

definition recording_interface :: WebSocketAudioInterface where
  "recording_interface =
     (WebSocketAudioInterface_init 7 (Some 1))
       \<lparr>is_recording := True, input_callback := Some failing_callback\<rparr>"

definition stalled_env :: output_env where
  "stalled_env = \<lparr>thread_loop = Inr 2, schedule_raises = None, completion = Never\<rparr>"

text \<open>The same call while the event loop of the connection is closed (the server shutting down).\<close>

definition closed_env :: output_env where
  "closed_env =
     \<lparr>thread_loop = Inr 2, schedule_raises = Some (OtherException ''Event loop is closed''),
      completion = Never\<rparr>"

text \<open>The registry entry of the example session as \<open>create_conversation\<close> stores it.\<close>

definition created_entry_value :: conv_data where
  "created_entry_value =
     \<lparr>conversation = \<lparr>conv_client = ''key'', conv_agent_id = ''agent'', requires_auth = True,
                       conv_session = example_sid\<rparr>,
      cd_websocket = 7, audio_interface = WebSocketAudioInterface_init 7 (Some 1),
      user_id = None, created_at = noon, is_active = False\<rparr>"

text \<open>The registry entry of the example session once it has been started.\<close>

definition started_entry :: conv_data where
  "started_entry =
     \<lparr>conversation = \<lparr>conv_client = ''key'', conv_agent_id = ''agent'', requires_auth = True,
                       conv_session = example_sid\<rparr>,
      cd_websocket = 7,
      audio_interface = (WebSocketAudioInterface_init 7 (Some 1))
                          \<lparr>is_recording := True, input_callback := Some sdk_callback\<rparr>,
      user_id = None, created_at = noon, is_active = True\<rparr>"

definition eight_pm :: datetime where
  "eight_pm = \<lparr>year = 2025, month = 1, day = 2, hour = 20, minute = 0, second = 0,
               microsecond = 0\<rparr>"

section \<open>Facts about the renderings\<close>

lemma digits_value_snoc: "digits_value (s @ [c]) = 10 * digits_value s + (of_char c - 48)"
  by (simp add: digits_value_def)

lemma of_char_digit_char: "d < 10 \<Longrightarrow> of_char (digit_char d) - 48 = d"
  by (simp add: digit_char_def take_bit_nat_eq_self)

lemma digits_value_dec: "digits_value (dec n) = n"
proof (induction n rule: dec.induct)
  case (1 n)
  show ?case
  proof (cases "n < 10")
    case True
    then show ?thesis
      by (simp add: dec.simps[of n] digits_value_def of_char_digit_char)
  next
    case False
    with "1.IH" show ?thesis
      by (simp add: dec.simps[of n] digits_value_snoc of_char_digit_char)
  qed
qed

lemma dec_inj: "dec n = dec m \<Longrightarrow> n = m"
  by (metis digits_value_dec)

lemma digits_value_zeros: "digits_value (replicate k CHR ''0'' @ s) = digits_value s"
proof -
  have "foldl (\<lambda>a c. 10 * a + (of_char c - 48)) 0 (replicate k CHR ''0'') = (0::nat)"
    by (induction k) simp_all
  then show ?thesis by (simp add: digits_value_def)
qed

lemma digits_value_zero_pad: "digits_value (zero_pad w n) = n"
  by (simp add: zero_pad_def digits_value_zeros digits_value_dec)

lemma zero_pad_inj: "zero_pad w n = zero_pad w m \<Longrightarrow> n = m"
  by (metis digits_value_zero_pad)

lemma length_dec_le: "0 < k \<Longrightarrow> n < 10 ^ k \<Longrightarrow> length (dec n) \<le> k"
proof (induction n arbitrary: k rule: dec.induct)
  case (1 n)
  show ?case
  proof (cases "n < 10")
    case True
    with "1.prems" show ?thesis by (simp add: dec.simps[of n])
  next
    case False
    with "1.prems" obtain j where k: "k = Suc j" and j: "0 < j"
      by (cases k; cases "k - 1") auto
    from "1.prems" k have "n div 10 < 10 ^ j"
      by (simp add: less_mult_imp_div_less mult.commute)
    from "1.IH"[OF False j this] False k show ?thesis
      by (simp add: dec.simps[of n])
  qed
qed

lemma length_zero_pad: "0 < w \<Longrightarrow> n < 10 ^ w \<Longrightarrow> length (zero_pad w n) = w"
  using length_dec_le[of w n] by (simp add: zero_pad_def)

lemma append_same_length: "length a = length b \<Longrightarrow> a @ x = b @ y \<Longrightarrow> a = b \<and> x = y"
  by simp

text \<open>
  The timestamp has a fixed width, so it can be cut off the front of an identifier, and
  each of its fields read back.
\<close>

lemma strftime_fields:
  assumes v1: "valid_datetime t1" and v2: "valid_datetime t2"
    and eq: "strftime t1 @ r1 = strftime t2 @ r2"
  shows "same_second t1 t2 \<and> r1 = r2"
proof -
  have l4: "length (zero_pad 4 (year t)) = 4" if "valid_datetime t" for t
    using that by (intro length_zero_pad) (simp_all add: valid_datetime_def)
  have l2: "length (zero_pad 2 n) = 2" if "n \<le> 59" for n
    using that by (intro length_zero_pad) simp_all
  have b: "month t \<le> 59" "day t \<le> 59" "hour t \<le> 59" "minute t \<le> 59" "second t \<le> 59"
    if "valid_datetime t" for t
    using that by (simp_all add: valid_datetime_def)
  from eq have e0:
    "zero_pad 4 (year t1) @ (zero_pad 2 (month t1) @ (zero_pad 2 (day t1) @ (''_'' @
       (zero_pad 2 (hour t1) @ (zero_pad 2 (minute t1) @ (zero_pad 2 (second t1) @ r1)))))) =
     zero_pad 4 (year t2) @ (zero_pad 2 (month t2) @ (zero_pad 2 (day t2) @ (''_'' @
       (zero_pad 2 (hour t2) @ (zero_pad 2 (minute t2) @ (zero_pad 2 (second t2) @ r2))))))"
    unfolding strftime_def append_assoc .
  note e1 = append_same_length[OF _ e0, unfolded l4[OF v1] l4[OF v2], OF refl]
  note e2 = append_same_length[OF _ conjunct2[OF e1],
      unfolded l2[OF b(1)[OF v1]] l2[OF b(1)[OF v2]], OF refl]
  note e3 = append_same_length[OF _ conjunct2[OF e2],
      unfolded l2[OF b(2)[OF v1]] l2[OF b(2)[OF v2]], OF refl]
  note e4 = append_same_length[OF _ conjunct2[OF e3], OF refl]
  note e5 = append_same_length[OF _ conjunct2[OF e4],
      unfolded l2[OF b(3)[OF v1]] l2[OF b(3)[OF v2]], OF refl]
  note e6 = append_same_length[OF _ conjunct2[OF e5],
      unfolded l2[OF b(4)[OF v1]] l2[OF b(4)[OF v2]], OF refl]
  note e7 = append_same_length[OF _ conjunct2[OF e6],
      unfolded l2[OF b(5)[OF v1]] l2[OF b(5)[OF v2]], OF refl]
  show ?thesis
    unfolding same_second_def
    using zero_pad_inj[OF conjunct1[OF e1]] zero_pad_inj[OF conjunct1[OF e2]]
      zero_pad_inj[OF conjunct1[OF e3]] zero_pad_inj[OF conjunct1[OF e5]]
      zero_pad_inj[OF conjunct1[OF e6]] zero_pad_inj[OF conjunct1[OF e7]] conjunct2[OF e7]
    by simp
qed

lemma make_session_id_inj:
  assumes "valid_datetime t1" "valid_datetime t2"
    and "make_session_id t1 w1 = make_session_id t2 w2"
  shows "same_second t1 t2 \<and> w1 = w2"
proof -
  from assms(3) have "strftime t1 @ (''_'' @ dec w1) = strftime t2 @ (''_'' @ dec w2)"
    by (simp add: make_session_id_def)
  from strftime_fields[OF assms(1,2) this] show ?thesis
    by (auto dest: dec_inj)
qed

lemma make_session_id_same:
  "same_second t1 t2 \<Longrightarrow> make_session_id t1 w = make_session_id t2 w"
  by (simp add: same_second_def make_session_id_def strftime_def)

lemma dec_404: "dec 404 = ''404''"
  by code_simp

lemma end_conversation_returns:
  "end_conversation eng sid m = (r, m', evs) \<Longrightarrow> r = Inr ()"
  by (auto simp: end_conversation_def split: option.splits prod.splits)

lemmas example_defs = example_sid_def manager0_def created_manager_def active_manager_def
  server0_def config_ok_def engine_ok_def engine_end_fails_def open_socket_def
  ConversationManager_init_def create_conversation_def start_conversation_def
  end_conversation_def WebSocketAudioInterface_init_def start_def stop_def Let_def

text \<open>The example registry, evaluated once.\<close>

lemma created:
  "create_conversation config_ok 7 (Some 1) None noon noon manager0 =
     (Inr example_sid, created_manager, [Log INFO (''Created conversation session: '' @ example_sid)])"
  by (simp add: created_manager_def example_sid_def create_conversation_def manager0_def
      ConversationManager_init_def config_ok_def Let_def)

lemma created_entry:
  "conversations created_manager = [example_sid \<mapsto>
     \<lparr>conversation = \<lparr>conv_client = ''key'', conv_agent_id = ''agent'', requires_auth = True,
                       conv_session = example_sid\<rparr>,
      cd_websocket = 7, audio_interface = WebSocketAudioInterface_init 7 (Some 1),
      user_id = None, created_at = noon, is_active = False\<rparr>]"
  by (simp add: created_manager_def example_sid_def create_conversation_def manager0_def
      ConversationManager_init_def config_ok_def Let_def)

lemma active_entry: "conversations active_manager = [example_sid \<mapsto> started_entry]"
  by (simp add: active_manager_def start_conversation_def created_entry engine_ok_def
      start_def started_entry_def WebSocketAudioInterface_init_def)

lemma create_conversation_returns_id:
  "fst (create_conversation config ws cur_loop uid now1 now2 m) = Inr s \<Longrightarrow>
   s = make_session_id now1 ws"
  by (auto simp: create_conversation_def Let_def split: option.splits if_splits)

lemma valid_examples: "valid_datetime noon" "valid_datetime later_noon" "valid_datetime eight_pm"
  by (simp_all add: valid_datetime_def noon_def later_noon_def eight_pm_def)

lemma same_second_noon: "same_second later_noon noon"
  by (simp add: same_second_def later_noon_def noon_def)

lemma ended_manager:
  "fst (snd (end_conversation engine_ok example_sid created_manager)) = manager0"
  by (simp add: end_conversation_def created_entry engine_ok_def stop_def
      created_manager_def create_conversation_def manager0_def ConversationManager_init_def
      config_ok_def example_sid_def Let_def)

lemma created_later:
  "fst (create_conversation config_ok 7 (Some 1) None later_noon later_noon manager0)
     = Inr example_sid"
  unfolding example_sid_def make_session_id_same[OF same_second_noon, symmetric]
  by (simp add: create_conversation_def manager0_def ConversationManager_init_def
      config_ok_def Let_def)

text \<open>
  The base64 text is the standard one: it reads back to the bytes it was made from, has
  four characters for every three bytes begun, and agrees with the test vectors of
  RFC 4648 and with the alphabet taken in order.
\<close>

lemma index_of_nth: "distinct xs \<Longrightarrow> n < length xs \<Longrightarrow> index_of (xs ! n) xs = n"
proof (induction xs arbitrary: n)
  case Nil
  then show ?case by simp
next
  case (Cons x xs)
  show ?case
  proof (cases n)
    case 0
    then show ?thesis by simp
  next
    case (Suc k)
    with Cons.prems have "xs ! k \<in> set xs" by simp
    with Cons.prems have "xs ! k \<noteq> x" by auto
    with Suc Cons show ?thesis by simp
  qed
qed

lemma b64_alphabet_distinct: "distinct b64_alphabet"
  by (simp add: b64_alphabet_def)

lemma b64_alphabet_length: "length b64_alphabet = 64"
  by (simp add: b64_alphabet_def)

lemma b64_index_char: "b64_index (b64_char k) = k mod 64"
  unfolding b64_index_def b64_char_def
  by (rule index_of_nth[OF b64_alphabet_distinct]) (simp add: b64_alphabet_length)

lemma b64_char_in_alphabet: "b64_char k \<in> set b64_alphabet"
  unfolding b64_char_def by (rule nth_mem) (simp add: b64_alphabet_length)

lemma pad_not_in_alphabet: "CHR ''='' \<notin> set b64_alphabet"
  by (simp add: b64_alphabet_def)

lemma b64_char_not_pad: "b64_char k \<noteq> CHR ''=''"
  using b64_char_in_alphabet[of k] pad_not_in_alphabet by metis

lemma byte_of_nat: "k mod 256 = unat (w :: 8 word) \<Longrightarrow> of_nat k = w"
proof -
  assume a: "k mod 256 = unat w"
  have "unat (of_nat k :: 8 word) = k mod 256"
    by (simp add: unat_of_nat)
  with a show ?thesis
    by (simp add: word_unat_eq_iff)
qed

lemma unat_byte_less: "unat (w :: 8 word) < 256"
  using unsigned_less[of w, where 'a = nat] by simp

lemma sextets_rebuild:
  fixes n :: nat
  assumes "n < 16777216"
  shows "(n div 262144) mod 64 * 262144 + (n div 4096) mod 64 * 4096
           + (n div 64) mod 64 * 64 + n mod 64 = n"
proof -
  have a: "n div 262144 < 64"
    using assms by (simp add: less_mult_imp_div_less)
  have d1: "n = n div 64 * 64 + n mod 64"
    by simp
  have e2: "n div 64 div 64 = n div 4096"
    using div_mult2_eq[of n 64 64] by simp
  have d2: "n div 64 = n div 4096 * 64 + n div 64 mod 64"
    using div_mult_mod_eq[of "n div 64" 64] unfolding e2 by linarith
  have e3: "n div 4096 div 64 = n div 262144"
    using div_mult2_eq[of n 4096 64] by simp
  have d3: "n div 4096 = n div 262144 * 64 + n div 4096 mod 64"
    using div_mult_mod_eq[of "n div 4096" 64] unfolding e3 by linarith
  from a have d4: "n div 262144 mod 64 = n div 262144"
    by simp
  from d1 d2 d3 show ?thesis
    unfolding d4 by linarith
qed


lemma three_bytes:
  fixes a b c :: nat
  assumes "b < 256" "c < 256"
  shows "(a * 65536 + b * 256 + c) div 65536 = a"
    and "(a * 65536 + b * 256 + c) div 256 mod 256 = b"
    and "(a * 65536 + b * 256 + c) mod 256 = c"
proof -
  define r where "r = b * 256 + c"
  define x where "x = a * 256 + b"
  have r: "r < 65536" using assms unfolding r_def by linarith
  have e1: "a * 65536 + b * 256 + c = a * 65536 + r"
    unfolding r_def by simp
  have e2: "a * 65536 + b * 256 + c = x * 256 + c"
    unfolding x_def by simp
  show "(a * 65536 + b * 256 + c) div 65536 = a"
    unfolding e1 using r by simp
  have q: "(x * 256 + c) div 256 = x"
    using assms by simp
  have "x mod 256 = b"
    unfolding x_def using assms by simp
  with q show "(a * 65536 + b * 256 + c) div 256 mod 256 = b"
    unfolding e2 by simp
  show "(a * 65536 + b * 256 + c) mod 256 = c"
    unfolding e2 using assms by simp
qed

lemma b64decode_encode: "b64decode (b64encode f) = Some f"
proof (induction f rule: b64encode.induct)
  case 1
  show ?case by simp
next
  case (2 a)
  define n where "n = unat a * 65536"
  have n: "n < 16777216"
    using unat_byte_less[of a] by (simp add: n_def)
  have m: "n = unat a * 1024 * 64" by (simp add: n_def)
  have z: "n div 64 mod 64 = 0" "n mod 64 = 0"
    unfolding m by simp_all
  from sextets_rebuild[OF n] z
  have s: "n div 262144 mod 64 * 262144 + n div 4096 mod 64 * 4096 = n" by linarith
  have b: "n div 65536 = unat a" by (simp add: n_def)
  have enc: "b64encode [a] =
      [b64_char (n div 262144), b64_char (n div 4096), CHR ''='', CHR ''='']"
    by (simp add: n_def Let_def)
  show ?case
    unfolding enc by (simp add: Let_def b64_index_char s b)
next
  case (3 a b)
  define n where "n = unat a * 65536 + unat b * 256"
  have n: "n < 16777216"
    using unat_byte_less[of a] unat_byte_less[of b] by (simp add: n_def)
  have m: "n = (unat a * 1024 + unat b * 4) * 64" by (simp add: n_def)
  have z: "n mod 64 = 0"
    unfolding m by simp
  from sextets_rebuild[OF n] z
  have s: "n div 262144 mod 64 * 262144 + n div 4096 mod 64 * 4096 + n div 64 mod 64 * 64 = n"
    by linarith
  have b1: "n div 65536 = unat a"
    using three_bytes(1)[of "unat b" 0 "unat a"] unat_byte_less[of b] by (simp add: n_def)
  have b2: "n div 256 mod 256 = unat b"
    using three_bytes(2)[of "unat b" 0 "unat a"] unat_byte_less[of b] by (simp add: n_def)
  have enc: "b64encode [a, b] =
      [b64_char (n div 262144), b64_char (n div 4096), b64_char (n div 64), CHR ''='']"
    by (simp add: n_def Let_def)
  show ?case
    unfolding enc by (simp add: Let_def b64_index_char b64_char_not_pad s b1 byte_of_nat[OF b2])
next
  case (4 a b c rest)
  define n where "n = unat a * 65536 + unat b * 256 + unat c"
  have n: "n < 16777216"
    using unat_byte_less[of a] unat_byte_less[of b] unat_byte_less[of c] by (simp add: n_def)
  note s = sextets_rebuild[OF n]
  have b1: "n div 65536 = unat a"
    using three_bytes(1)[of "unat b" "unat c" "unat a"] unat_byte_less[of b] unat_byte_less[of c]
    by (simp add: n_def)
  have b2: "n div 256 mod 256 = unat b"
    using three_bytes(2)[of "unat b" "unat c" "unat a"] unat_byte_less[of b] unat_byte_less[of c]
    by (simp add: n_def)
  have b3: "n mod 256 = unat c"
    using three_bytes(3)[of "unat b" "unat c" "unat a"] unat_byte_less[of b] unat_byte_less[of c]
    by (simp add: n_def)
  have enc: "b64encode (a # b # c # rest) =
      [b64_char (n div 262144), b64_char (n div 4096), b64_char (n div 64), b64_char n]
      @ b64encode rest"
    by (simp add: n_def Let_def)
  show ?case
    unfolding enc
    by (simp add: Let_def b64_index_char b64_char_not_pad s b1 byte_of_nat[OF b2]
        byte_of_nat[OF b3] "4.IH")
qed

lemma b64encode_length: "length (b64encode f) = 4 * ((length f + 2) div 3)"
proof (induction f rule: b64encode.induct)
  case (4 a b c rest)
  have "(length (a # b # c # rest) + 2) div 3 = Suc ((length rest + 2) div 3)"
    by simp
  with 4 show ?case by (simp add: Let_def)
qed (simp_all add: Let_def)

lemma b64encode_vectors:
  "b64encode [] = []"
  "b64encode [102] = ''Zg==''"
  "b64encode [102, 111] = ''Zm8=''"
  "b64encode [102, 111, 111] = ''Zm9v''"
  "b64encode [102, 111, 111, 98] = ''Zm9vYg==''"
  "b64encode [102, 111, 111, 98, 97] = ''Zm9vYmE=''"
  "b64encode [102, 111, 111, 98, 97, 114] = ''Zm9vYmFy''"
  by (simp_all add: b64_char_def b64_alphabet_def)

lemma b64encode_alphabet:
  "b64encode [0, 16, 131, 16, 81, 135, 32, 146, 139, 48, 211, 143, 65, 20, 147, 81, 85, 151, 97, 150, 155, 113, 215, 159, 130, 24, 163, 146, 89, 167, 162, 154, 171, 178, 219, 175, 195, 28, 179, 211, 93, 183, 227, 158, 187, 243, 223, 191]
     = ''ABCDEFGHIJKLMNOPQRSTUVWXYZabcdefghijklmnopqrstuvwxyz0123456789+/''"
  by (simp add: b64_char_def b64_alphabet_def)

lemma b64_example: "b64encode [77, 97, 110] = ''TWFu''"
  by (simp add: b64_char_def b64_alphabet_def)

lemma created_interface_loop:
  "create_conversation config ws cur_loop uid now1 now2 m = (Inr sid, m', evs) \<Longrightarrow>
   map_option (\<lambda>cd. loop (audio_interface cd)) (conversations m' sid) = Some cur_loop"
  by (auto simp: create_conversation_def WebSocketAudioInterface_init_def Let_def
      split: option.splits if_splits)

section \<open>Inbound audio\<close>

text \<open>
  C4. Every frame passed to \<open>queue_audio\<close> is appended to the queue; it reaches the input
  callback exactly once when the interface is recording and a callback is registered, and
  not at all otherwise; the call returns to its caller whatever the callback does, and an
  exception of the callback is logged as an error.
\<close>

theorem queue_audio_appends_and_forwards:
  "queue_audio f a = (r, a', evs) \<Longrightarrow>
     r = Inr () \<and>
     audio_queue a' = audio_queue a @ [f] \<and>
     callback_frames evs =
       (if is_recording a \<and> input_callback a \<noteq> None then [f] else []) \<and>
     error_logs evs =
       (case input_callback a of
          None \<Rightarrow> []
        | Some cb \<Rightarrow>
            if is_recording a then
              (case cb f of None \<Rightarrow> []
               | Some e \<Rightarrow> [''Error in input callback: '' @ str_exc e])
            else [])"
  by (auto simp: queue_audio_def Let_def split: option.splits if_splits)

theorem queue_audio_witness:
  "queue_audio [1, 2] recording_interface =
     (Inr (), recording_interface\<lparr>audio_queue := [[1, 2]]\<rparr>,
      [InputCallback [1, 2], Log ERROR ''Error in input callback: engine closed'']) \<and>
   callback_frames [InputCallback [1, 2], Log ERROR ''Error in input callback: engine closed'']
     = [[1, 2]]"
proof -
  have h: "queue_audio [1, 2] recording_interface =
     (Inr (), recording_interface\<lparr>audio_queue := [[1, 2]]\<rparr>,
      [InputCallback [1, 2], Log ERROR ''Error in input callback: engine closed''])"
    by (simp add: queue_audio_def recording_interface_def WebSocketAudioInterface_init_def
        failing_callback_def)
  from queue_audio_appends_and_forwards[OF h] h show ?thesis
    by (simp add: recording_interface_def WebSocketAudioInterface_init_def)
qed

section \<open>Session creation without configuration\<close>

text \<open>
  C8. A manager built from a configuration in which the API key or the agent identifier is
  absent (or empty) refuses every creation with HTTPException 500, and hands back the
  manager as it was, whatever its registry \<open>reg\<close> holds: no entry added, none changed,
  nothing logged.
\<close>

theorem create_conversation_unconfigured:
  "\<not> truthy (ELEVENLABS_API_KEY config) \<or> \<not> truthy (AGENT_ID config) \<Longrightarrow>
   create_conversation config ws cur_loop uid now1 now2
      ((fst (ConversationManager_init config))\<lparr>conversations := reg\<rparr>) =
     (Inl (HTTPException 500 ''ElevenLabs not properly configured''),
      (fst (ConversationManager_init config))\<lparr>conversations := reg\<rparr>, [])"
  by (cases "ELEVENLABS_API_KEY config"; cases "AGENT_ID config")
     (auto simp: create_conversation_def ConversationManager_init_def Let_def)

theorem create_conversation_unconfigured_witness:
  "\<not> truthy (AGENT_ID config_no_agent) \<and>
   create_conversation config_no_agent 7 (Some 1) None noon noon
      ((fst (ConversationManager_init config_no_agent))
         \<lparr>conversations := conversations created_manager\<rparr>) =
     (Inl (HTTPException 500 ''ElevenLabs not properly configured''),
      (fst (ConversationManager_init config_no_agent))
         \<lparr>conversations := conversations created_manager\<rparr>, [])"
proof -
  have h: "\<not> truthy (AGENT_ID config_no_agent)"
    by (simp add: config_no_agent_def)
  then have "\<not> truthy (ELEVENLABS_API_KEY config_no_agent) \<or> \<not> truthy (AGENT_ID config_no_agent)"
    by simp
  from create_conversation_unconfigured[OF this] h show ?thesis by simp
qed

section \<open>Ending a session\<close>

text \<open>
  C6. \<open>end_conversation\<close> returns to its caller for every engine, identifier and registry:
  what the engine's \<^verbatim>\<open>end_session\<close> raises is caught, and logged as an error. Once the
  identifier is gone from the registry, a further call returns too, changes nothing, calls
  nothing and logs nothing.
\<close>

theorem end_conversation_never_raises:
  "fst (end_conversation eng sid m) = Inr () \<and>
   (conversations m sid = Some cd \<and>
    fst (end_session eng (conversation cd) (audio_interface cd)) = Some e \<longrightarrow>
      error_logs (snd (snd (end_conversation eng sid m)))
        = [''Error ending conversation: '' @ str_exc e]) \<and>
   (conversations (fst (snd (end_conversation eng sid m))) sid = None \<longrightarrow>
      end_conversation eng sid (fst (snd (end_conversation eng sid m)))
        = (Inr (), fst (snd (end_conversation eng sid m)), []))"
  by (auto simp: end_conversation_def split: option.splits prod.splits)

theorem end_conversation_never_raises_witness:
  "conversations (fst (snd (end_conversation engine_ok example_sid created_manager))) example_sid
     = None \<and>
   end_conversation engine_ok example_sid
       (fst (snd (end_conversation engine_ok example_sid created_manager)))
     = (Inr (), fst (snd (end_conversation engine_ok example_sid created_manager)), []) \<and>
   conversations created_manager example_sid = Some created_entry_value \<and>
   fst (end_session engine_end_fails (conversation created_entry_value)
          (audio_interface created_entry_value)) = Some (OtherException ''end_session failed'') \<and>
   fst (end_conversation engine_end_fails example_sid created_manager) = Inr () \<and>
   error_logs (snd (snd (end_conversation engine_end_fails example_sid created_manager)))
     = [''Error ending conversation: end_session failed'']"
proof -
  have h: "conversations (fst (snd (end_conversation engine_ok example_sid created_manager)))
      example_sid = None"
    unfolding ended_manager
    by (simp add: manager0_def ConversationManager_init_def config_ok_def)
  have k1: "conversations created_manager example_sid = Some created_entry_value"
    by (simp add: created_entry created_entry_value_def)
  have k2: "fst (end_session engine_end_fails (conversation created_entry_value)
      (audio_interface created_entry_value)) = Some (OtherException ''end_session failed'')"
    by (simp add: engine_end_fails_def)
  from end_conversation_never_raises[of engine_ok example_sid created_manager] h
  have a: "end_conversation engine_ok example_sid
       (fst (snd (end_conversation engine_ok example_sid created_manager)))
     = (Inr (), fst (snd (end_conversation engine_ok example_sid created_manager)), [])"
    by blast
  from end_conversation_never_raises[of engine_end_fails example_sid created_manager
      created_entry_value "OtherException ''end_session failed''"] k1 k2
  have b: "fst (end_conversation engine_end_fails example_sid created_manager) = Inr ()"
    and c: "error_logs (snd (snd (end_conversation engine_end_fails example_sid created_manager)))
     = [''Error ending conversation: end_session failed'']"
    by simp_all
  from h a k1 k2 b c show ?thesis by blast
qed

section \<open>Frames for a session that is not registered\<close>

text \<open>
  C10. A binary frame that arrives while the session identifier of the connection is not in
  the registry is dropped: the turn of the loop returns, and the server is the one it was:
  no queue touched, no callback called, nothing sent, nothing logged.
\<close>

theorem audio_for_unknown_session_discarded:
  "conversations (manager s) sid = None \<Longrightarrow>
   loop_turn eng sid (Returns \<lparr>d_text = None, d_bytes = Some f\<rparr>) s = (Inr (), s)"
  by (simp add: loop_turn_def)

theorem audio_for_unknown_session_discarded_witness:
  "conversations (manager server0) example_sid = None \<and>
   loop_turn engine_ok example_sid (Returns \<lparr>d_text = None, d_bytes = Some [1, 2]\<rparr>) server0
     = (Inr (), server0)"
proof -
  have h: "conversations (manager server0) example_sid = None"
    by (simp add: server0_def manager0_def ConversationManager_init_def config_ok_def)
  from audio_for_unknown_session_discarded[OF h] h show ?thesis by simp
qed

text \<open>
  C9. A \<^verbatim>\<open>{"type": "start"}\<close> message on a connection whose session identifier is not in
  the registry, the transport taking sends: the only effect of the turn is the error reply
  appended to what was sent; the registry is the one it was, and the turn returns, so the
  loop goes on to the next receive.
\<close>

theorem start_unknown_session_replies_error:
  assumes "conversations (manager s) sid = None"
    and "send_raises (socket s) = None"
    and "message ''type'' = Some (PStr ''start'')"
  shows "loop_turn eng sid (Returns \<lparr>d_text = Some (Object message), d_bytes = b\<rparr>) s =
     (Inr (),
      s\<lparr>socket := (socket s)\<lparr>sent := sent (socket s) @
         [[(''type'', PStr ''error''),
           (''message'', PStr ''Failed to start conversation: 404: Session not found'')]]\<rparr>\<rparr>)"
  using assms
  by (simp add: loop_turn_def handle_websocket_message_def get_default_def
      start_conversation_def emit_def send_json_def dec_404)

theorem start_unknown_session_replies_error_witness:
  "conversations (manager server0) example_sid = None \<and>
   send_raises (socket server0) = None \<and>
   loop_turn engine_ok example_sid
       (Returns \<lparr>d_text = Some (Object [''type'' \<mapsto> PStr ''start'']), d_bytes = None\<rparr>) server0 =
     (Inr (),
      server0\<lparr>socket := (socket server0)\<lparr>sent := sent (socket server0) @
         [[(''type'', PStr ''error''),
           (''message'', PStr ''Failed to start conversation: 404: Session not found'')]]\<rparr>\<rparr>)"
proof -
  have h1: "conversations (manager server0) example_sid = None"
    by (simp add: server0_def manager0_def ConversationManager_init_def config_ok_def)
  have h2: "send_raises (socket server0) = None"
    by (simp add: server0_def open_socket_def)
  have h3: "[''type'' \<mapsto> PStr ''start''] ''type'' = Some (PStr ''start'')"
    by simp
  from start_unknown_session_replies_error[of server0 example_sid
      "[''type'' \<mapsto> PStr ''start'']" engine_ok None, OF h1 h2 h3] h1 h2
  show ?thesis by simp
qed

section \<open>Starting a session twice\<close>

text \<open>
  C1, as the specification states it, fails: \<open>start_conversation\<close> never looks at
  \<open>is_active\<close>. On the example session, already started, a second start with an engine
  that accepts it returns normally, and the engine's \<^verbatim>\<open>start_session\<close> has been called
  again.
\<close>

theorem second_start_counterexample:
  "map_option is_active (conversations active_manager example_sid) = Some True \<and>
   fst (start_conversation engine_ok example_sid PNone active_manager) = Inr () \<and>
   snd (snd (start_conversation engine_ok example_sid PNone active_manager)) =
     [StartSession example_sid,
      Log INFO (''Started ElevenLabs conversation for session: '' @ example_sid)]"
  by (simp add: active_entry start_conversation_def engine_ok_def started_entry_def)

text \<open>
  C1, amended. A start on a session that is already active is not refused by any check of
  the state: it calls the engine's \<^verbatim>\<open>start_session\<close> again, on the handle the registry
  entry already holds (no new handle is made); it fails, with HTTPException 500, exactly
  when that call raises, and returns normally otherwise; \<open>is_active\<close> stays true either
  way.
\<close>

theorem start_on_active_session_restarts_engine:
  assumes "conversations m sid = Some cd" and "is_active cd"
  shows "fst (start_conversation eng sid uid m) =
      (case fst (start_session eng (conversation cd) (audio_interface cd)) of
         None \<Rightarrow> Inr ()
       | Some e \<Rightarrow> Inl (HTTPException 500 (''Failed to start conversation: '' @ str_exc e))) \<and>
    hd (snd (snd (start_conversation eng sid uid m))) = StartSession (conv_session (conversation cd)) \<and>
    map_option is_active (conversations (fst (snd (start_conversation eng sid uid m))) sid) = Some True \<and>
    map_option conversation (conversations (fst (snd (start_conversation eng sid uid m))) sid)
      = Some (conversation cd)"
  using assms
  by (auto simp: start_conversation_def split: prod.splits option.splits)

theorem start_on_active_session_restarts_engine_witness:
  "conversations active_manager example_sid = Some started_entry \<and> is_active started_entry \<and>
   fst (start_conversation engine_ok example_sid PNone active_manager) = Inr () \<and>
   hd (snd (snd (start_conversation engine_ok example_sid PNone active_manager)))
     = StartSession example_sid"
proof -
  have h1: "conversations active_manager example_sid = Some started_entry"
    by (simp add: active_entry)
  have h2: "is_active started_entry"
    by (simp add: started_entry_def)
  have h3: "conv_session (conversation started_entry) = example_sid"
    by (simp add: started_entry_def)
  have h4: "fst (start_session engine_ok (conversation started_entry)
      (audio_interface started_entry)) = None"
    by (simp add: engine_ok_def)
  from start_on_active_session_restarts_engine[OF h1 h2, of engine_ok PNone] h1 h2 h3 h4
  show ?thesis by simp
qed

section \<open>One bad message and the receive loop\<close>

text \<open>
  C2, as the specification states it, fails: \<^verbatim>\<open>json.loads\<close> runs inside the \<^verbatim>\<open>try\<close> that
  encloses the whole loop. A connection that sends a control message stays in the loop;
  one that sends a text frame that does not decode, and then the same control message,
  gets the reply \<open>Server error: ...\<close>, the handler returns, and the second frame is never
  answered.
\<close>

theorem decode_failure_counterexample:
  "fst (websocket_conversation engine_ok config_ok (Some 1) noon noon [text_frame] server0)
     = Receiving \<and>
   fst (websocket_conversation engine_ok config_ok (Some 1) noon noon [bad_frame, text_frame]
          server0) = Returned \<and>
   sent (socket (snd (websocket_conversation engine_ok config_ok (Some 1) noon noon
          [bad_frame, text_frame] server0))) =
     [[(''type'', PStr ''session_created''), (''session_id'', PStr example_sid),
       (''message'', PStr ''Conversation session created. Send 'start' to begin.'')],
      [(''type'', PStr ''error''),
       (''message'', PStr ''Server error: Expecting value: line 1 column 1 (char 0)'')]]"
  by (simp add: websocket_conversation_def server0_def open_socket_def emit_def created
      send_json_def loop_turn_def bad_frame_def text_frame_def handle_websocket_message_def
      get_default_def on_exception_def cleanup_def
      end_conversation_def created_entry engine_ok_def stop_def Let_def del: One_nat_def)

text \<open>
  C2, amended. A text frame that decodes to a JSON object, on a connection whose transport
  takes the reply, never ends the loop: the turn returns whatever the type and whatever the
  engine does. When the type is none of \<open>start\<close>, \<open>stop\<close>, \<open>text\<close>, the only effect is
  the error reply that names it. A text frame that does not decode changes nothing and
  raises the decode error out of the turn, which ends the loop.
\<close>

theorem object_message_keeps_loop_running:
  assumes "send_raises (socket s) = None"
  shows "fst (loop_turn eng sid (Returns \<lparr>d_text = Some (Object message), d_bytes = b\<rparr>) s) = Inr () \<and>
    (get_default message ''type'' PNone \<notin> {PStr ''start'', PStr ''stop'', PStr ''text''} \<longrightarrow>
       snd (loop_turn eng sid (Returns \<lparr>d_text = Some (Object message), d_bytes = b\<rparr>) s) =
         s\<lparr>socket := (socket s)\<lparr>sent := sent (socket s) @
           [[(''type'', PStr ''error''),
             (''message'',
              PStr (''Unknown message type: '' @ py_str (get_default message ''type'' PNone)))]]\<rparr>\<rparr>) \<and>
    loop_turn eng sid (Returns \<lparr>d_text = Some (DecodeError msg), d_bytes = b\<rparr>) s
      = (Inl (OtherException msg), s)"
  using assms
  by (auto simp: loop_turn_def handle_websocket_message_def Let_def emit_def send_json_def
      split: prod.splits sum.splits dest: end_conversation_returns)

theorem object_message_keeps_loop_running_witness:
  "send_raises (socket server0) = None \<and>
   get_default [''type'' \<mapsto> PStr ''dance''] ''type'' PNone
     \<notin> {PStr ''start'', PStr ''stop'', PStr ''text''} \<and>
   loop_turn engine_ok example_sid
       (Returns \<lparr>d_text = Some (Object [''type'' \<mapsto> PStr ''dance'']), d_bytes = None\<rparr>) server0 =
     (Inr (),
      server0\<lparr>socket := (socket server0)\<lparr>sent := sent (socket server0) @
         [[(''type'', PStr ''error''),
           (''message'', PStr ''Unknown message type: dance'')]]\<rparr>\<rparr>)"
proof -
  have h1: "send_raises (socket server0) = None"
    by (simp add: server0_def open_socket_def)
  have h3: "get_default [''type'' \<mapsto> PStr ''dance''] ''type'' PNone = PStr ''dance''"
    by (simp add: get_default_def)
  have h2: "get_default [''type'' \<mapsto> PStr ''dance''] ''type'' PNone
     \<notin> {PStr ''start'', PStr ''stop'', PStr ''text''}"
    unfolding h3 by simp
  from object_message_keeps_loop_running[OF h1, of engine_ok example_sid
      "[''type'' \<mapsto> PStr ''dance'']" None] h1 h2
  show ?thesis unfolding h3 by (simp add: prod_eq_iff)
qed

section \<open>Ending a session whose engine fails\<close>

text \<open>
  C3. The claim is that the identifier is gone from the registry once \<open>end_conversation\<close>
  returns, whether or not the engine's \<^verbatim>\<open>end_session\<close> raised. The source deletes the
  entry inside the \<^verbatim>\<open>try\<close>, after the engine call: when that call raises, the
  \<^verbatim>\<open>del\<close> is skipped. With an engine whose \<^verbatim>\<open>end_session\<close> raises, the call returns
  and the registry is what it was; and a connection that disconnects leaves its session
  listed after the handler has returned.
\<close>

theorem end_conversation_engine_failure_keeps_session:
  "end_conversation engine_end_fails example_sid created_manager =
     (Inr (), created_manager,
      [EndSession example_sid, Log ERROR ''Error ending conversation: end_session failed'']) \<and>
   conversations created_manager example_sid \<noteq> None \<and>
   fst (websocket_conversation engine_end_fails config_ok (Some 1) noon noon
          [Raises WebSocketDisconnect] server0) = Returned \<and>
   listed (manager (snd (websocket_conversation engine_end_fails config_ok (Some 1) noon noon
          [Raises WebSocketDisconnect] server0))) = {example_sid}"
  by (simp add: websocket_conversation_def server0_def open_socket_def emit_def created
      send_json_def loop_turn_def on_exception_def cleanup_def listed_def
      end_conversation_def created_entry engine_end_fails_def Let_def del: One_nat_def)

section \<open>Session identifiers\<close>

text \<open>
  C5, as the specification states it, fails: the identifier is made of the clock reading cut
  to the second and of \<^verbatim>\<open>id(websocket)\<close>, which CPython gives again to a new object once
  the old one is freed. A connection creates its session and ends it; within the same
  second a new connection, whose object has the \<^verbatim>\<open>id\<close> of the first, creates its own: the
  two creations succeed and return the same identifier.
\<close>

theorem session_id_reuse_counterexample:
  "fst (create_conversation config_ok 7 (Some 1) None noon noon manager0) = Inr example_sid \<and>
   conversations (fst (snd (end_conversation engine_ok example_sid created_manager))) example_sid
     = None \<and>
   later_noon \<noteq> noon \<and>
   fst (create_conversation config_ok 7 (Some 1) None later_noon later_noon
          (fst (snd (end_conversation engine_ok example_sid created_manager))))
     = Inr example_sid"
proof -
  have a: "fst (create_conversation config_ok 7 (Some 1) None noon noon manager0)
      = Inr example_sid"
    unfolding created by simp
  have b: "conversations manager0 example_sid = None"
    by (simp add: manager0_def ConversationManager_init_def config_ok_def)
  have c: "later_noon \<noteq> noon"
    by (simp add: later_noon_def noon_def)
  show ?thesis
    unfolding ended_manager using a b c created_later by blast
qed

text \<open>
  C5, amended. Two successful creations, at clock readings with a four-digit year, return
  the same identifier exactly when the readings are in the same second and the two
  connections have the same \<^verbatim>\<open>id\<close>. So creations that differ in the second, or in the
  connection (as any two connections open at the same time do), get distinct identifiers.
\<close>

theorem session_ids_equal_iff:
  assumes "valid_datetime t1" and "valid_datetime t2"
    and "fst (create_conversation c1 ws1 l1 u1 t1 t1' m1) = Inr s1"
    and "fst (create_conversation c2 ws2 l2 u2 t2 t2' m2) = Inr s2"
  shows "(s1 = s2) = (same_second t1 t2 \<and> ws1 = ws2)"
proof -
  from assms(3) have s1: "s1 = make_session_id t1 ws1"
    by (rule create_conversation_returns_id)
  from assms(4) have s2: "s2 = make_session_id t2 ws2"
    by (rule create_conversation_returns_id)
  show ?thesis
  proof
    assume "s1 = s2"
    then have "make_session_id t1 ws1 = make_session_id t2 ws2"
      unfolding s1 s2 .
    from make_session_id_inj[OF assms(1,2) this]
    show "same_second t1 t2 \<and> ws1 = ws2" .
  next
    assume a: "same_second t1 t2 \<and> ws1 = ws2"
    then have "make_session_id t1 ws1 = make_session_id t2 ws1"
      by (intro make_session_id_same) simp
    with a show "s1 = s2" unfolding s1 s2 by simp
  qed
qed

theorem session_ids_equal_iff_witness:
  "valid_datetime noon \<and> valid_datetime eight_pm \<and>
   fst (create_conversation config_ok 7 (Some 1) None noon noon manager0) = Inr example_sid \<and>
   fst (create_conversation config_ok 7 (Some 1) None eight_pm eight_pm manager0)
     = Inr (make_session_id eight_pm 7) \<and>
   example_sid \<noteq> make_session_id eight_pm 7"
proof -
  have h3: "fst (create_conversation config_ok 7 (Some 1) None noon noon manager0)
      = Inr example_sid"
    unfolding created by simp
  have h4: "fst (create_conversation config_ok 7 (Some 1) None eight_pm eight_pm manager0)
      = Inr (make_session_id eight_pm 7)"
    by (simp add: create_conversation_def manager0_def ConversationManager_init_def
        config_ok_def Let_def)
  have h5: "\<not> same_second noon eight_pm"
    by (simp add: same_second_def noon_def eight_pm_def)
  from session_ids_equal_iff[OF valid_examples(1) valid_examples(3) h3 h4] h5
  have "example_sid \<noteq> make_session_id eight_pm 7" by simp
  with valid_examples h3 h4 show ?thesis by blast
qed

section \<open>Outbound audio never raises\<close>

text \<open>
  C7, as the specification states it, fails in one part: not every frame has its
  transmission scheduled. While the event loop of the connection is closed,
  \<^verbatim>\<open>run_coroutine_threadsafe\<close> raises; \<open>output\<close> catches the exception and logs it, and
  no send is scheduled for the frame.
\<close>

theorem closed_loop_counterexample:
  "loop recording_interface = Some 1 \<and>
   scheduled_sends (output_audio config_ok closed_env [77, 97, 110] recording_interface) = [] \<and>
   raised (output_audio config_ok closed_env [77, 97, 110] recording_interface) = None \<and>
   output_events (output_audio config_ok closed_env [77, 97, 110] recording_interface) =
     [Log ERROR ''Error forwarding audio to WebSocket: Event loop is closed'']"
  by (simp add: output_audio_def output_failed_def closed_env_def recording_interface_def
      WebSocketAudioInterface_init_def)

text \<open>
  C7, amended. Whatever the environment of the call (the loop of the calling thread, the
  loop refusing the coroutine, the send completing, raising or never completing),
  \<open>output\<close> raises nothing to the engine's thread and blocks it for at most 2000
  milliseconds. For an interface that holds its loop (the one \<open>create_conversation\<close> ran
  on, see \<open>created_interface_loop\<close>): when the loop accepts the coroutine, exactly one send
  is scheduled, on that loop, for the connection of the interface, of the message of type
  \<open>audio\<close> with the base64 text of the frame, encoding \<open>pcm16\<close> and the configured sample
  rate; when the loop refuses it, nothing is scheduled and the error is logged. The base64
  text reads back to the frame and has four characters for every three bytes begun.
\<close>

theorem output_audio_bounded_and_silent:
  "raised (output_audio config env f a) = None \<and>
   blocked_ms (output_audio config env f a) \<le> 2000 \<and>
   (loop a = Some l \<and> schedule_raises env = None \<longrightarrow>
      scheduled_sends (output_audio config env f a) =
        [(l, ai_websocket a,
          [(''type'', PStr ''audio''), (''audio_data'', PStr (b64encode f)),
           (''encoding'', PStr ''pcm16''),
           (''sample_rate_hz'', PInt (OUTPUT_SAMPLE_RATE_HZ config))])]) \<and>
   (loop a = Some l \<and> schedule_raises env = Some e \<longrightarrow>
      scheduled_sends (output_audio config env f a) = [] \<and>
      output_events (output_audio config env f a) =
        [Log ERROR (''Error forwarding audio to WebSocket: '' @ str_exc e)]) \<and>
   b64decode (b64encode f) = Some f \<and>
   length (b64encode f) = 4 * ((length f + 2) div 3)"
proof -
  have w: "snd (fut_result 2000 c) \<le> 2000" for c
    by (cases c) auto
  have "raised (output_audio config env f a) = None \<and>
   blocked_ms (output_audio config env f a) \<le> 2000 \<and>
   (loop a = Some l \<and> schedule_raises env = None \<longrightarrow>
      scheduled_sends (output_audio config env f a) =
        [(l, ai_websocket a,
          [(''type'', PStr ''audio''), (''audio_data'', PStr (b64encode f)),
           (''encoding'', PStr ''pcm16''),
           (''sample_rate_hz'', PInt (OUTPUT_SAMPLE_RATE_HZ config))])]) \<and>
   (loop a = Some l \<and> schedule_raises env = Some e \<longrightarrow>
      scheduled_sends (output_audio config env f a) = [] \<and>
      output_events (output_audio config env f a) =
        [Log ERROR (''Error forwarding audio to WebSocket: '' @ str_exc e)])"
    using w[of "completion env"]
    by (auto simp: output_audio_def output_failed_def audio_payload_def
        split: option.splits sum.splits prod.splits)
  with b64decode_encode[of f] b64encode_length[of f] show ?thesis
    by blast
qed

theorem output_audio_bounded_and_silent_witness:
  "loop recording_interface = Some 1 \<and> schedule_raises stalled_env = None \<and>
   schedule_raises closed_env = Some (OtherException ''Event loop is closed'') \<and>
   raised (output_audio config_ok stalled_env [77, 97, 110] recording_interface) = None \<and>
   blocked_ms (output_audio config_ok stalled_env [77, 97, 110] recording_interface) \<le> 2000 \<and>
   scheduled_sends (output_audio config_ok stalled_env [77, 97, 110] recording_interface) =
     [(1, 7, [(''type'', PStr ''audio''), (''audio_data'', PStr ''TWFu''),
              (''encoding'', PStr ''pcm16''), (''sample_rate_hz'', PInt 24000)])] \<and>
   scheduled_sends (output_audio config_ok closed_env [77, 97, 110] recording_interface) = [] \<and>
   b64decode ''TWFu'' = Some [77, 97, 110]"
proof -
  have h1: "loop recording_interface = Some 1"
    by (simp add: recording_interface_def WebSocketAudioInterface_init_def)
  have h2: "schedule_raises stalled_env = None"
    by (simp add: stalled_env_def)
  have h3: "schedule_raises closed_env = Some (OtherException ''Event loop is closed'')"
    by (simp add: closed_env_def)
  have h4: "ai_websocket recording_interface = 7"
    by (simp add: recording_interface_def WebSocketAudioInterface_init_def)
  have h5: "OUTPUT_SAMPLE_RATE_HZ config_ok = 24000"
    by (simp add: config_ok_def)
  from output_audio_bounded_and_silent[of config_ok stalled_env "[77, 97, 110]"
      recording_interface 1] h1 h2
  have a: "raised (output_audio config_ok stalled_env [77, 97, 110] recording_interface) = None"
    and b: "blocked_ms (output_audio config_ok stalled_env [77, 97, 110] recording_interface)
      \<le> 2000"
    and c: "scheduled_sends (output_audio config_ok stalled_env [77, 97, 110]
      recording_interface) =
     [(1, 7, [(''type'', PStr ''audio''), (''audio_data'', PStr ''TWFu''),
              (''encoding'', PStr ''pcm16''), (''sample_rate_hz'', PInt 24000)])]"
    and d: "b64decode ''TWFu'' = Some [77, 97, 110]"
    unfolding b64_example h4 h5 by blast+
  from output_audio_bounded_and_silent[of config_ok closed_env "[77, 97, 110]"
      recording_interface 1 "OtherException ''Event loop is closed''"] h1 h3
  have e: "scheduled_sends (output_audio config_ok closed_env [77, 97, 110]
      recording_interface) = []"
    by blast
  from h1 h2 h3 a b c d e show ?thesis by blast
qed

end
